theory Spec2Isabelle
  imports Main "HOL-Library.Word"
begin

unbundle bit_operations_syntax

section \<open>Types of libva, GLib and GStreamer used by gstmfxutils_vaapi.c\<close>

text \<open>
  The C file works on \<^verbatim>\<open>guint\<close> (32 bits, unsigned), on libva's handles
  \<^verbatim>\<open>VAImageID\<close> and \<^verbatim>\<open>VABufferID\<close> (32 bits, unsigned), on \<^verbatim>\<open>VAStatus\<close> (a 32-bit
  int that is only ever compared with \<^verbatim>\<open>VA_STATUS_SUCCESS\<close>) and on the enum
  \<^verbatim>\<open>GstVideoFormat\<close>. Pointers are addresses, \<^verbatim>\<open>NULL\<close> being address 0; adding an
  offset to a pointer is addition of naturals (C leaves pointer overflow undefined).
\<close>

type_synonym guint = "32 word"
type_synonym VAImageID = "32 word"
type_synonym VABufferID = "32 word"
type_synonym VAStatus = "32 word"
type_synonym GstVideoFormat = "32 word"
type_synonym pointer = nat
type_synonym GstMfxDisplay = nat

definition NULL :: pointer where
  "NULL = 0"

definition VA_INVALID_ID :: "32 word" where
  "VA_INVALID_ID = 0xffffffff"

definition VA_STATUS_SUCCESS :: VAStatus where
  "VA_STATUS_SUCCESS = 0"

definition VA_LSB_FIRST :: "32 word" where
  "VA_LSB_FIRST = 1"

text \<open>\<^verbatim>\<open>VA_FOURCC('N','V','1','2')\<close> and \<^verbatim>\<open>VA_FOURCC('Y','V','1','2')\<close> of va.h.\<close>

definition VA_FOURCC_NV12 :: "32 word" where
  "VA_FOURCC_NV12 = 0x3231564E"

definition VA_FOURCC_YV12 :: "32 word" where
  "VA_FOURCC_YV12 = 0x32315659"

text \<open>The enumerators of GStreamer's \<^verbatim>\<open>GstVideoFormat\<close> that matter here.\<close>

definition GST_VIDEO_FORMAT_UNKNOWN :: GstVideoFormat where
  "GST_VIDEO_FORMAT_UNKNOWN = 0"

definition GST_VIDEO_FORMAT_YV12 :: GstVideoFormat where
  "GST_VIDEO_FORMAT_YV12 = 3"

definition GST_VIDEO_FORMAT_NV12 :: GstVideoFormat where
  "GST_VIDEO_FORMAT_NV12 = 23"

record VAImageFormat =
  fourcc :: "32 word"
  byte_order :: "32 word"
  bits_per_pixel :: "32 word"
  depth :: "32 word"
  red_mask :: "32 word"
  green_mask :: "32 word"
  blue_mask :: "32 word"
  alpha_mask :: "32 word"

text \<open>
  A C array of three elements, \<^verbatim>\<open>uint32_t pitches[3]\<close>. Reading it at an index
  beyond 2 is out of bounds: \<open>None\<close>.
\<close>

type_synonym 'a array3 = "'a \<times> 'a \<times> 'a"

fun array3_nth :: "'a array3 \<Rightarrow> nat \<Rightarrow> 'a option" where
  "array3_nth (a, b, c) i =
     (if i = 0 then Some a else if i = 1 then Some b else if i = 2 then Some c else None)"

text \<open>
  libva's \<^verbatim>\<open>VAImage\<close>: the fields this file reads or writes (the palette fields
  and the padding are copied along with the struct and never looked at).
\<close>

record VAImage =
  image_id :: VAImageID
  format :: VAImageFormat
  buf :: VABufferID
  va_width :: "16 word"
  va_height :: "16 word"
  data_size :: "32 word"
  num_planes :: "32 word"
  pitches :: "32 word array3"
  offsets :: "32 word array3"

text \<open>
  \<^verbatim>\<open>struct _VaapiImage\<close>. The \<^verbatim>\<open>parent_instance\<close> is the mini object header, of
  which the reference count is kept. In the definitions below a pointer argument
  \<^verbatim>\<open>VaapiImage *image\<close> is \<open>image_ptr\<close>, an option (\<open>None\<close> is the null pointer), and
  the object it points to is \<open>img\<close>.
\<close>

record VaapiImage =
  ref_count :: int
  display :: GstMfxDisplay
  internal_format :: GstVideoFormat
  image_data :: pointer
  width :: guint
  height :: guint
  image :: VAImage

section \<open>The world outside: the driver, the display lock, the log\<close>

text \<open>
  Every call that leaves the file is recorded, in order, in a trace. The driver's answers
  are a parameter: each entry point of libva answers from the trace so far and its
  arguments, and an entry point with an out parameter also gets the present content of
  that slot and returns the content it leaves there.

  GLib's \<^verbatim>\<open>g_return_val_if_fail (cond, v)\<close> returns \<open>v\<close> at once when \<open>cond\<close> is false;
  the message it logs and the \<^verbatim>\<open>GST_DEBUG\<close> lines are left out of the trace, and
  \<^verbatim>\<open>g_warning\<close> is the event \<open>Log_warning\<close>.
\<close>

text \<open>
  Modelled from the spec: the macros \<^verbatim>\<open>GST_MFX_DISPLAY_LOCK\<close> and
  \<^verbatim>\<open>GST_MFX_DISPLAY_UNLOCK\<close> are not in the file. Section 6 has the core acquire and
  release the context's lock around every driver call: they are the events
  \<open>Display_lock\<close> and \<open>Display_unlock\<close> of the display they are given.
\<close>

datatype event =
    Display_lock GstMfxDisplay
  | Display_unlock GstMfxDisplay
  | Display_ref GstMfxDisplay
  | Display_unref GstMfxDisplay
  | Call_vaCreateImage GstMfxDisplay VAImageFormat guint guint
  | Call_vaDestroyImage GstMfxDisplay VAImageID
  | Call_vaMapBuffer GstMfxDisplay VABufferID
  | Call_vaUnmapBuffer GstMfxDisplay VABufferID
  | Log_warning VAImageID
  | Object_free

type_synonym trace = "event list"

record driver =
  new0_ok :: "trace \<Rightarrow> bool"
  vaCreateImage :: "trace \<Rightarrow> VAImageFormat \<Rightarrow> guint \<Rightarrow> guint \<Rightarrow> VAImage \<Rightarrow> VAStatus \<times> VAImage"
  vaDestroyImage :: "trace \<Rightarrow> VAImageID \<Rightarrow> VAStatus"
  vaMapBuffer :: "trace \<Rightarrow> VABufferID \<Rightarrow> pointer \<Rightarrow> VAStatus \<times> pointer"
  vaUnmapBuffer :: "trace \<Rightarrow> VABufferID \<Rightarrow> VAStatus"

text \<open>
  Modelled from the spec: \<^verbatim>\<open>vaapi_check_status\<close> is not in the file. Section 7 of the
  spec has a driver call fail when it reports non-success.
\<close>

definition vaapi_check_status :: "VAStatus \<Rightarrow> bool" where
  "vaapi_check_status status = (status = VA_STATUS_SUCCESS)"

text \<open>
  Modelled from the spec: \<^verbatim>\<open>gst_mfx_display_ref\<close> and \<^verbatim>\<open>gst_mfx_display_unref\<close> are not in
  the file. Section 4.1: ref increments the count and returns the same object, unref
  decrements it.
\<close>

definition gst_mfx_display_ref :: "GstMfxDisplay \<Rightarrow> trace \<Rightarrow> GstMfxDisplay \<times> trace" where
  "gst_mfx_display_ref d tr = (d, tr @ [Display_ref d])"

definition gst_mfx_display_unref :: "GstMfxDisplay \<Rightarrow> trace \<Rightarrow> trace" where
  "gst_mfx_display_unref d tr = tr @ [Display_unref d]"

text \<open>
  Modelled from the spec: \<^verbatim>\<open>gst_mfx_mini_object_new0\<close> is not in the file. Section 4.1:
  create allocates zeroed storage and returns no object when the allocation fails. The new
  object has one owner.
\<close>

definition zero_VAImageFormat :: VAImageFormat where
  "zero_VAImageFormat =
     \<lparr>fourcc = 0, byte_order = 0, bits_per_pixel = 0, depth = 0,
      red_mask = 0, green_mask = 0, blue_mask = 0, alpha_mask = 0\<rparr>"

definition zero_VAImage :: VAImage where
  "zero_VAImage =
     \<lparr>image_id = 0, format = zero_VAImageFormat, buf = 0, va_width = 0, va_height = 0,
      data_size = 0, num_planes = 0, pitches = (0, 0, 0), offsets = (0, 0, 0)\<rparr>"

definition gst_mfx_mini_object_new0 :: "driver \<Rightarrow> trace \<Rightarrow> VaapiImage option" where
  "gst_mfx_mini_object_new0 drv tr =
     (if new0_ok drv tr
      then Some \<lparr>ref_count = 1, display = 0, internal_format = 0, image_data = NULL,
                 width = 0, height = 0, image = zero_VAImage\<rparr>
      else None)"

section \<open>The image wrapper\<close>

definition internal_vaapi_image_is_mapped :: "VaapiImage \<Rightarrow> bool" where
  "internal_vaapi_image_is_mapped img = (image_data img \<noteq> NULL)"

definition vaapi_image_is_mapped :: "VaapiImage option \<Rightarrow> bool" where
  "vaapi_image_is_mapped image_ptr =
     (case image_ptr of None \<Rightarrow> False | Some img \<Rightarrow> internal_vaapi_image_is_mapped img)"

definition internal_vaapi_image_map ::
    "driver \<Rightarrow> VaapiImage \<Rightarrow> trace \<Rightarrow> bool \<times> VaapiImage \<times> trace" where
  "internal_vaapi_image_map drv img tr =
     (if internal_vaapi_image_is_mapped img then (True, img, tr)
      else
        let tr1 = tr @ [Display_lock (display img)];
            (status, p) = vaMapBuffer drv tr1 (buf (image img)) (image_data img);
            tr2 = tr1 @ [Call_vaMapBuffer (display img) (buf (image img)),
                         Display_unlock (display img)];
            img1 = img\<lparr>image_data := p\<rparr>
        in if \<not> vaapi_check_status status then (False, img1, tr2)
           else (True, img1, tr2))"

definition vaapi_image_map ::
    "driver \<Rightarrow> VaapiImage option \<Rightarrow> trace \<Rightarrow> bool \<times> VaapiImage option \<times> trace" where
  "vaapi_image_map drv image_ptr tr =
     (case image_ptr of
        None \<Rightarrow> (False, None, tr)
      | Some img \<Rightarrow>
          (let (r, img1, tr1) = internal_vaapi_image_map drv img tr in (r, Some img1, tr1)))"

definition internal_vaapi_image_unmap ::
    "driver \<Rightarrow> VaapiImage \<Rightarrow> trace \<Rightarrow> bool \<times> VaapiImage \<times> trace" where
  "internal_vaapi_image_unmap drv img tr =
     (if \<not> internal_vaapi_image_is_mapped img then (True, img, tr)
      else
        let tr1 = tr @ [Display_lock (display img)];
            status = vaUnmapBuffer drv tr1 (buf (image img));
            tr2 = tr1 @ [Call_vaUnmapBuffer (display img) (buf (image img)),
                         Display_unlock (display img)]
        in if \<not> vaapi_check_status status then (False, img, tr2)
           else (True, img\<lparr>image_data := NULL\<rparr>, tr2))"

definition vaapi_image_unmap ::
    "driver \<Rightarrow> VaapiImage option \<Rightarrow> trace \<Rightarrow> bool \<times> VaapiImage option \<times> trace" where
  "vaapi_image_unmap drv image_ptr tr =
     (case image_ptr of
        None \<Rightarrow> (False, None, tr)
      | Some img \<Rightarrow>
          (let (r, img1, tr1) = internal_vaapi_image_unmap drv img tr in (r, Some img1, tr1)))"

definition vaapi_image_get_id :: "VaapiImage option \<Rightarrow> VAImageID" where
  "vaapi_image_get_id image_ptr =
     (case image_ptr of None \<Rightarrow> VA_INVALID_ID | Some img \<Rightarrow> image_id (image img))"

definition vaapi_image_get_image ::
    "VaapiImage option \<Rightarrow> VAImage option \<Rightarrow> bool \<times> VAImage option" where
  \<comment> \<open>The second argument is the slot \<^verbatim>\<open>va_image\<close> points to (\<open>None\<close> for a null
      pointer); the slot is returned as the call leaves it. The image is only read.\<close>
  "vaapi_image_get_image image_ptr va_image =
     (case image_ptr of
        None \<Rightarrow> (False, va_image)
      | Some img \<Rightarrow>
          (case va_image of
             Some old \<Rightarrow> (True, Some (image img))
           | None \<Rightarrow> (True, None)))"

definition internal_vaapi_image_set_image :: "VaapiImage \<Rightarrow> VAImage \<Rightarrow> bool \<times> VaapiImage" where
  "internal_vaapi_image_set_image img va_image =
     (True, img\<lparr>internal_format := GST_VIDEO_FORMAT_NV12,
                image := va_image,
                width := ucast (va_width va_image),
                height := ucast (va_height va_image)\<rparr>)"

definition vaapi_image_get_format :: "VaapiImage option \<Rightarrow> GstVideoFormat" where
  "vaapi_image_get_format image_ptr =
     (case image_ptr of None \<Rightarrow> 0 | Some img \<Rightarrow> internal_format img)"

definition vaapi_image_get_width :: "VaapiImage option \<Rightarrow> guint" where
  "vaapi_image_get_width image_ptr =
     (case image_ptr of None \<Rightarrow> 0 | Some img \<Rightarrow> width img)"

definition vaapi_image_get_height :: "VaapiImage option \<Rightarrow> guint" where
  "vaapi_image_get_height image_ptr =
     (case image_ptr of None \<Rightarrow> 0 | Some img \<Rightarrow> height img)"

definition vaapi_image_get_size ::
    "VaapiImage option \<Rightarrow> guint option \<Rightarrow> guint option \<Rightarrow> guint option \<times> guint option" where
  "vaapi_image_get_size image_ptr pwidth pheight =
     (case image_ptr of
        None \<Rightarrow> (pwidth, pheight)
      | Some img \<Rightarrow>
          (map_option (\<lambda>_. width img) pwidth, map_option (\<lambda>_. height img) pheight))"

definition vaapi_image_get_plane_count :: "VaapiImage option \<Rightarrow> guint" where
  "vaapi_image_get_plane_count image_ptr =
     (case image_ptr of None \<Rightarrow> 0 | Some img \<Rightarrow> num_planes (image img))"

text \<open>
  The accessors that index \<^verbatim>\<open>offsets[3]\<close> or \<^verbatim>\<open>pitches[3]\<close> return \<open>None\<close> where the C
  code would read past the end of the array (a plane number below \<^verbatim>\<open>num_planes\<close> but
  above 2), and \<open>Some\<close> of the returned value otherwise.
\<close>

definition vaapi_image_get_plane :: "VaapiImage option \<Rightarrow> guint \<Rightarrow> pointer option" where
  "vaapi_image_get_plane image_ptr plane =
     (case image_ptr of
        None \<Rightarrow> Some NULL
      | Some img \<Rightarrow>
          if \<not> internal_vaapi_image_is_mapped img then Some NULL
          else if \<not> plane < num_planes (image img) then Some NULL
          else map_option (\<lambda>off. image_data img + unat off)
                 (array3_nth (offsets (image img)) (unat plane)))"

definition vaapi_image_get_pitch :: "VaapiImage option \<Rightarrow> guint \<Rightarrow> guint option" where
  "vaapi_image_get_pitch image_ptr plane =
     (case image_ptr of
        None \<Rightarrow> Some 0
      | Some img \<Rightarrow>
          if \<not> plane < num_planes (image img) then Some 0
          else array3_nth (pitches (image img)) (unat plane))"

definition vaapi_image_get_data_size :: "VaapiImage option \<Rightarrow> guint" where
  "vaapi_image_get_data_size image_ptr =
     (case image_ptr of None \<Rightarrow> 0 | Some img \<Rightarrow> data_size (image img))"

definition vaapi_image_get_offset :: "VaapiImage option \<Rightarrow> guint \<Rightarrow> guint option" where
  "vaapi_image_get_offset image_ptr plane =
     (case image_ptr of
        None \<Rightarrow> Some 0
      | Some img \<Rightarrow>
          if \<not> plane < num_planes (image img) then Some 0
          else array3_nth (offsets (image img)) (unat plane))"

subsection \<open>Destruction\<close>

definition vaapi_image_finalize :: "driver \<Rightarrow> VaapiImage \<Rightarrow> trace \<Rightarrow> trace" where
  "vaapi_image_finalize drv img tr =
     (let (r, img1, tr1) = internal_vaapi_image_unmap drv img tr;
          id = vaapi_image_get_id (Some img1);
          tr4 =
            (if id \<noteq> VA_INVALID_ID then
               let tr2 = tr1 @ [Display_lock (display img1)];
                   status = vaDestroyImage drv tr2 id;
                   tr3 = tr2 @ [Call_vaDestroyImage (display img1) id,
                                Display_unlock (display img1)]
               in if \<not> vaapi_check_status status then tr3 @ [Log_warning id] else tr3
             else tr1)
      in gst_mfx_display_unref (display img1) tr4)"

text \<open>
  Modelled from the spec: \<^verbatim>\<open>gst_mfx_mini_object_ref\<close> and \<^verbatim>\<open>gst_mfx_mini_object_unref\<close>
  are not in the file. Section 4.1: ref increments the count and returns the same object;
  unref decrements it and, when it reaches zero, invokes the finalize callback of the
  class descriptor (\<^verbatim>\<open>vaapi_image_class\<close> names \<^verbatim>\<open>vaapi_image_finalize\<close>), then releases the
  storage. The result is the object while it lives, \<open>None\<close> once it is destroyed.
\<close>

definition gst_mfx_mini_object_ref :: "VaapiImage \<Rightarrow> VaapiImage" where
  "gst_mfx_mini_object_ref img = img\<lparr>ref_count := ref_count img + 1\<rparr>"

definition gst_mfx_mini_object_unref ::
    "driver \<Rightarrow> VaapiImage \<Rightarrow> trace \<Rightarrow> VaapiImage option \<times> trace" where
  "gst_mfx_mini_object_unref drv img tr =
     (let c = ref_count img - 1 in
      if c = 0 then (None, vaapi_image_finalize drv (img\<lparr>ref_count := c\<rparr>) tr @ [Object_free])
      else (Some (img\<lparr>ref_count := c\<rparr>), tr))"

definition vaapi_image_ref :: "VaapiImage option \<Rightarrow> VaapiImage option" where
  "vaapi_image_ref image_ptr = map_option gst_mfx_mini_object_ref image_ptr"

definition vaapi_image_unref ::
    "driver \<Rightarrow> VaapiImage \<Rightarrow> trace \<Rightarrow> VaapiImage option \<times> trace" where
  "vaapi_image_unref drv img tr = gst_mfx_mini_object_unref drv img tr"

subsection \<open>Construction\<close>

text \<open>The local \<^verbatim>\<open>va_format\<close> of \<^verbatim>\<open>vaapi_image_create\<close>; the fields it does not name are zero.\<close>

definition va_format :: VAImageFormat where
  "va_format =
     \<lparr>fourcc = VA_FOURCC_NV12, byte_order = VA_LSB_FIRST, bits_per_pixel = 8, depth = 8,
      red_mask = 0, green_mask = 0, blue_mask = 0, alpha_mask = 0\<rparr>"

definition vaapi_image_create ::
    "driver \<Rightarrow> VaapiImage \<Rightarrow> guint \<Rightarrow> guint \<Rightarrow> trace \<Rightarrow> bool \<times> VaapiImage \<times> trace" where
  "vaapi_image_create drv img w h tr =
     (let tr1 = tr @ [Display_lock (display img)];
          (status, va) = vaCreateImage drv tr1 va_format w h (image img);
          tr2 = tr1 @ [Call_vaCreateImage (display img) va_format w h,
                       Display_unlock (display img)];
          img1 = img\<lparr>image := va\<rparr>
      in if status \<noteq> VA_STATUS_SUCCESS then (False, img1, tr2)
         else (True, img1\<lparr>internal_format := GST_VIDEO_FORMAT_NV12, width := w, height := h\<rparr>,
               tr2))"

definition vaapi_image_new ::
    "driver \<Rightarrow> GstMfxDisplay \<Rightarrow> guint \<Rightarrow> guint \<Rightarrow> trace \<Rightarrow> VaapiImage option \<times> trace" where
  "vaapi_image_new drv dpy w h tr =
     (if \<not> 0 < w then (None, tr)
      else if \<not> 0 < h then (None, tr)
      else if dpy = NULL then (None, tr)
      else
        case gst_mfx_mini_object_new0 drv tr of
          None \<Rightarrow> (None, tr)
        | Some img0 \<Rightarrow>
            let (d, tr1) = gst_mfx_display_ref dpy tr;
                img1 = img0\<lparr>display := d\<rparr>;
                img2 = img1\<lparr>image := (image img1)\<lparr>image_id := VA_INVALID_ID\<rparr>\<rparr>;
                img3 = img2\<lparr>image := (image img2)\<lparr>buf := VA_INVALID_ID\<rparr>\<rparr>;
                (ok, img4, tr2) = vaapi_image_create drv img3 w h tr1
            in if \<not> ok then (None, snd (vaapi_image_unref drv img4 tr2))
               else (Some img4, tr2))"

definition vaapi_image_new_with_image ::
    "driver \<Rightarrow> GstMfxDisplay \<Rightarrow> VAImage option \<Rightarrow> trace \<Rightarrow> VaapiImage option \<times> trace" where
  "vaapi_image_new_with_image drv dpy va_image tr =
     (case va_image of
        None \<Rightarrow> (None, tr)
      | Some va \<Rightarrow>
          if \<not> (image_id va \<noteq> VA_INVALID_ID) then (None, tr)
          else if \<not> (buf va \<noteq> VA_INVALID_ID) then (None, tr)
          else
            case gst_mfx_mini_object_new0 drv tr of
              None \<Rightarrow> (None, tr)
            | Some img0 \<Rightarrow>
                let (d, tr1) = gst_mfx_display_ref dpy tr;
                    img1 = img0\<lparr>display := d\<rparr>;
                    (ok, img2) = internal_vaapi_image_set_image img1 va
                in if \<not> ok then (None, snd (vaapi_image_unref drv img2 tr1))
                   else (Some img2, tr1))"

section \<open>The task roles of gstmfxtask.h\<close>

datatype GstMfxTaskType =
    GST_MFX_TASK_INVALID
  | GST_MFX_TASK_DECODER
  | GST_MFX_TASK_VPP_IN
  | GST_MFX_TASK_VPP_OUT
  | GST_MFX_TASK_ENCODER

text \<open>The value the enum declaration gives each enumerator; the shifts are the header's.\<close>

fun task_type_value :: "GstMfxTaskType \<Rightarrow> guint" where
  "task_type_value GST_MFX_TASK_INVALID = 0"
| "task_type_value GST_MFX_TASK_DECODER = push_bit 0 1"
| "task_type_value GST_MFX_TASK_VPP_IN = push_bit 1 1"
| "task_type_value GST_MFX_TASK_VPP_OUT = push_bit 2 1"
| "task_type_value GST_MFX_TASK_ENCODER = push_bit 3 1"

text \<open>
  The \<^verbatim>\<open>type_flags\<close> word that names several roles at once is the bitwise OR of their
  values.
\<close>

fun type_flags :: "GstMfxTaskType list \<Rightarrow> guint" where
  "type_flags [] = 0"
| "type_flags (r # rs) = task_type_value r OR type_flags rs"

section \<open>Observing a trace\<close>

fun is_vaMapBuffer :: "event \<Rightarrow> bool" where
  "is_vaMapBuffer (Call_vaMapBuffer d b) = True"
| "is_vaMapBuffer _ = False"

fun is_vaDestroyImage :: "event \<Rightarrow> bool" where
  "is_vaDestroyImage (Call_vaDestroyImage d i) = True"
| "is_vaDestroyImage _ = False"

definition map_calls :: "trace \<Rightarrow> nat" where
  "map_calls tr = length (filter is_vaMapBuffer tr)"

definition destroy_calls :: "trace \<Rightarrow> nat" where
  "destroy_calls tr = length (filter is_vaDestroyImage tr)"

text \<open>Two calls of \<^verbatim>\<open>vaapi_image_map\<close> on the same pointer, with nothing in between.\<close>

definition map_twice ::
    "driver \<Rightarrow> VaapiImage option \<Rightarrow> trace \<Rightarrow> bool \<times> VaapiImage option \<times> trace" where
  "map_twice drv image_ptr tr =
     (let (r1, p1, tr1) = vaapi_image_map drv image_ptr tr in vaapi_image_map drv p1 tr1)"

section \<open>Driver doubles and sample images\<close>

definition nv12_va_image :: VAImage where
  "nv12_va_image =
     \<lparr>image_id = 7, format = va_format, buf = 9, va_width = 640, va_height = 480,
      data_size = 460800, num_planes = 2, pitches = (640, 640, 0),
      offsets = (0, 307200, 0)\<rparr>"

definition yv12_va_image :: VAImage where
  "yv12_va_image =
     \<lparr>image_id = 8, format = va_format\<lparr>fourcc := VA_FOURCC_YV12\<rparr>, buf = 10,
      va_width = 640, va_height = 480, data_size = 460800, num_planes = 3,
      pitches = (640, 320, 320), offsets = (0, 307200, 384000)\<rparr>"

text \<open>A driver that grants every request, and one that refuses every request.\<close>

definition working_driver :: driver where
  "working_driver =
     \<lparr>new0_ok = (\<lambda>tr. True),
      vaCreateImage = (\<lambda>tr f w h old.
         (VA_STATUS_SUCCESS,
          nv12_va_image\<lparr>format := f, va_width := ucast w, va_height := ucast h\<rparr>)),
      vaDestroyImage = (\<lambda>tr i. VA_STATUS_SUCCESS),
      vaMapBuffer = (\<lambda>tr b p. (VA_STATUS_SUCCESS, 4096)),
      vaUnmapBuffer = (\<lambda>tr b. VA_STATUS_SUCCESS)\<rparr>"

definition failing_driver :: driver where
  "failing_driver =
     \<lparr>new0_ok = (\<lambda>tr. True),
      vaCreateImage = (\<lambda>tr f w h old. (1, old)),
      vaDestroyImage = (\<lambda>tr i. 1),
      vaMapBuffer = (\<lambda>tr b p. (1, p)),
      vaUnmapBuffer = (\<lambda>tr b. 1)\<rparr>"

text \<open>
  A driver whose \<^verbatim>\<open>vaMapBuffer\<close> writes an address into the slot and then reports a
  failure, and one whose \<^verbatim>\<open>vaCreateImage\<close> reports success without filling in the
  descriptor.
\<close>

definition scribbling_driver :: driver where
  "scribbling_driver = failing_driver\<lparr>vaMapBuffer := (\<lambda>tr b p. (1, 8192))\<rparr>"

definition planeless_driver :: driver where
  "planeless_driver = working_driver\<lparr>vaCreateImage := (\<lambda>tr f w h old. (VA_STATUS_SUCCESS, old))\<rparr>"

text \<open>A descriptor with valid handles that announces four planes.\<close>

definition four_plane_va_image :: VAImage where
  "four_plane_va_image =
     \<lparr>image_id = 11, format = va_format, buf = 12, va_width = 640, va_height = 480,
      data_size = 460800, num_planes = 4, pitches = (640, 320, 320),
      offsets = (0, 307200, 384000)\<rparr>"

definition four_plane_image :: VaapiImage where
  "four_plane_image =
     \<lparr>ref_count = 1, display = 1, internal_format = GST_VIDEO_FORMAT_NV12, image_data = 4096,
      width = 640, height = 480, image = four_plane_va_image\<rparr>"

definition unmapped_image :: VaapiImage where
  "unmapped_image =
     \<lparr>ref_count = 1, display = 1, internal_format = GST_VIDEO_FORMAT_NV12, image_data = NULL,
      width = 640, height = 480, image = nv12_va_image\<rparr>"

definition mapped_image :: VaapiImage where
  "mapped_image = unmapped_image\<lparr>image_data := 4096\<rparr>"

definition unbacked_image :: VaapiImage where
  "unbacked_image =
     unmapped_image\<lparr>image := zero_VAImage\<lparr>image_id := VA_INVALID_ID, buf := VA_INVALID_ID\<rparr>\<rparr>"

lemmas fixture_defs =
  nv12_va_image_def yv12_va_image_def working_driver_def failing_driver_def
  scribbling_driver_def planeless_driver_def four_plane_va_image_def four_plane_image_def
  unmapped_image_def mapped_image_def unbacked_image_def va_format_def zero_VAImage_def
  zero_VAImageFormat_def

lemmas constant_defs =
  NULL_def VA_INVALID_ID_def VA_STATUS_SUCCESS_def VA_LSB_FIRST_def VA_FOURCC_NV12_def
  VA_FOURCC_YV12_def GST_VIDEO_FORMAT_NV12_def GST_VIDEO_FORMAT_YV12_def

section \<open>Mapping and unmapping\<close>

lemma map_when_mapped:
  "internal_vaapi_image_is_mapped img \<Longrightarrow> internal_vaapi_image_map drv img tr = (True, img, tr)"
  by (simp add: internal_vaapi_image_map_def)

lemma unmap_when_unmapped:
  "\<not> internal_vaapi_image_is_mapped img \<Longrightarrow>
     internal_vaapi_image_unmap drv img tr = (True, img, tr)"
  by (simp add: internal_vaapi_image_unmap_def)

lemma map_trace:
  "snd (snd (internal_vaapi_image_map drv img tr)) =
     (if internal_vaapi_image_is_mapped img then tr
      else tr @ [Display_lock (display img), Call_vaMapBuffer (display img) (buf (image img)),
                 Display_unlock (display img)])"
  by (simp add: internal_vaapi_image_map_def Let_def split: prod.splits)

lemma map_calls_one_map:
  "map_calls (snd (snd (internal_vaapi_image_map drv img tr))) \<le> map_calls tr + 1"
  by (simp add: map_trace map_calls_def)

lemma unmap_keeps:
  "display (fst (snd (internal_vaapi_image_unmap drv img tr))) = display img \<and>
   image (fst (snd (internal_vaapi_image_unmap drv img tr))) = image img"
  by (simp add: internal_vaapi_image_unmap_def Let_def)

lemma unmap_trace:
  "snd (snd (internal_vaapi_image_unmap drv img tr)) =
     (if internal_vaapi_image_is_mapped img
      then tr @ [Display_lock (display img), Call_vaUnmapBuffer (display img) (buf (image img)),
                 Display_unlock (display img)]
      else tr)"
  by (simp add: internal_vaapi_image_unmap_def Let_def)

lemma destroy_calls_unmap:
  "destroy_calls (snd (snd (internal_vaapi_image_unmap drv img tr))) = destroy_calls tr"
  by (simp add: unmap_trace destroy_calls_def)

text \<open>
  Whatever the driver, a failed map returns FALSE, and the data pointer is what the driver
  left in the slot it was handed.
\<close>

lemma failed_map_result:
  assumes "\<not> internal_vaapi_image_is_mapped img"
    and "fst (vaMapBuffer drv (tr @ [Display_lock (display img)]) (buf (image img))
                (image_data img)) \<noteq> VA_STATUS_SUCCESS"
  shows "internal_vaapi_image_map drv img tr =
     (False,
      img\<lparr>image_data := snd (vaMapBuffer drv (tr @ [Display_lock (display img)])
                                (buf (image img)) (image_data img))\<rparr>,
      tr @ [Display_lock (display img), Call_vaMapBuffer (display img) (buf (image img)),
            Display_unlock (display img)])"
  using assms
  by (auto simp add: internal_vaapi_image_map_def vaapi_check_status_def Let_def
      split: prod.splits)

text \<open>
  C2, as the claim has it: when the driver's map call fails the image is left unmapped.
  \<^verbatim>\<open>_vaapi_image_map\<close> hands \<^verbatim>\<open>&image->image_data\<close> itself to \<^verbatim>\<open>vaMapBuffer\<close> and resets
  nothing when the call fails: with a driver that writes the slot and then fails, map
  returns FALSE and the image is mapped.
\<close>

theorem failed_map_can_leave_image_mapped:
  "\<not> vaapi_image_is_mapped (Some unmapped_image) \<and>
   fst (vaMapBuffer scribbling_driver [Display_lock 1] (buf (image unmapped_image))
          (image_data unmapped_image)) \<noteq> VA_STATUS_SUCCESS \<and>
   fst (vaapi_image_map scribbling_driver (Some unmapped_image) []) = False \<and>
   vaapi_image_is_mapped (fst (snd (vaapi_image_map scribbling_driver (Some unmapped_image) [])))"
  by (simp add: vaapi_image_map_def internal_vaapi_image_map_def vaapi_image_is_mapped_def
      internal_vaapi_image_is_mapped_def vaapi_check_status_def fixture_defs constant_defs)

text \<open>
  C2, amended. On an unmapped image whose driver map call fails, \<^verbatim>\<open>vaapi_image_map\<close>
  returns FALSE and changes nothing of the image but the data pointer, which is what the
  driver left in the slot: the image is mapped afterwards exactly when that is not null,
  and when the driver left the slot as it was the image is what it was, unmapped, its data
  pointer null. On a mapped image whose driver unmap call fails, \<^verbatim>\<open>vaapi_image_unmap\<close>
  returns FALSE and the image is what it was: mapped, its data pointer kept.
\<close>

theorem map_unmap_on_driver_failure:
  "(\<not> vaapi_image_is_mapped (Some img) \<and>
    fst (vaMapBuffer drv (tr @ [Display_lock (display img)]) (buf (image img)) (image_data img))
      \<noteq> VA_STATUS_SUCCESS \<longrightarrow>
      vaapi_image_map drv (Some img) tr =
        (False,
         Some (img\<lparr>image_data := snd (vaMapBuffer drv (tr @ [Display_lock (display img)])
                                        (buf (image img)) (image_data img))\<rparr>),
         tr @ [Display_lock (display img), Call_vaMapBuffer (display img) (buf (image img)),
               Display_unlock (display img)]) \<and>
      (vaapi_image_is_mapped (fst (snd (vaapi_image_map drv (Some img) tr))) \<longleftrightarrow>
         snd (vaMapBuffer drv (tr @ [Display_lock (display img)]) (buf (image img))
                (image_data img)) \<noteq> NULL) \<and>
      (snd (vaMapBuffer drv (tr @ [Display_lock (display img)]) (buf (image img))
              (image_data img)) = image_data img \<longrightarrow>
         vaapi_image_map drv (Some img) tr =
           (False, Some img,
            tr @ [Display_lock (display img), Call_vaMapBuffer (display img) (buf (image img)),
                  Display_unlock (display img)]) \<and>
         \<not> vaapi_image_is_mapped (fst (snd (vaapi_image_map drv (Some img) tr))) \<and>
         image_data img = NULL)) \<and>
   (vaapi_image_is_mapped (Some img) \<and>
    vaUnmapBuffer drv (tr @ [Display_lock (display img)]) (buf (image img))
      \<noteq> VA_STATUS_SUCCESS \<longrightarrow>
      vaapi_image_unmap drv (Some img) tr =
        (False, Some img,
         tr @ [Display_lock (display img), Call_vaUnmapBuffer (display img) (buf (image img)),
               Display_unlock (display img)]) \<and>
      vaapi_image_is_mapped (Some img) \<and> image_data img \<noteq> NULL)"
proof -
  let ?reply = "vaMapBuffer drv (tr @ [Display_lock (display img)]) (buf (image img))
                  (image_data img)"
  let ?tr' = "tr @ [Display_lock (display img), Call_vaMapBuffer (display img) (buf (image img)),
                    Display_unlock (display img)]"
  have m: "vaapi_image_map drv (Some img) tr = (False, Some (img\<lparr>image_data := snd ?reply\<rparr>), ?tr')"
    if u: "\<not> vaapi_image_is_mapped (Some img)" and f: "fst ?reply \<noteq> VA_STATUS_SUCCESS"
  proof -
    from u have nm: "\<not> internal_vaapi_image_is_mapped img"
      by (simp add: vaapi_image_is_mapped_def)
    show ?thesis
      by (simp add: vaapi_image_map_def failed_map_result [OF nm f])
  qed
  have k: "img\<lparr>image_data := snd ?reply\<rparr> = img" if "snd ?reply = image_data img"
    using that by simp
  have un: "vaapi_image_unmap drv (Some img) tr =
        (False, Some img,
         tr @ [Display_lock (display img), Call_vaUnmapBuffer (display img) (buf (image img)),
               Display_unlock (display img)])"
    if "vaapi_image_is_mapped (Some img)"
    and "vaUnmapBuffer drv (tr @ [Display_lock (display img)]) (buf (image img))
           \<noteq> VA_STATUS_SUCCESS"
    using that
    by (simp add: vaapi_image_unmap_def internal_vaapi_image_unmap_def vaapi_check_status_def
        vaapi_image_is_mapped_def Let_def)
  show ?thesis
  proof (intro conjI impI)
    assume a: "\<not> vaapi_image_is_mapped (Some img) \<and> fst ?reply \<noteq> VA_STATUS_SUCCESS"
    then show r: "vaapi_image_map drv (Some img) tr
        = (False, Some (img\<lparr>image_data := snd ?reply\<rparr>), ?tr')"
      using m by simp
    show "vaapi_image_is_mapped (fst (snd (vaapi_image_map drv (Some img) tr)))
            \<longleftrightarrow> snd ?reply \<noteq> NULL"
      by (simp add: r vaapi_image_is_mapped_def internal_vaapi_image_is_mapped_def)
    assume s: "snd ?reply = image_data img"
    show r': "vaapi_image_map drv (Some img) tr = (False, Some img, ?tr')"
      using r k [OF s] by simp
    from a show n: "image_data img = NULL"
      by (simp add: vaapi_image_is_mapped_def internal_vaapi_image_is_mapped_def)
    from a show "\<not> vaapi_image_is_mapped (fst (snd (vaapi_image_map drv (Some img) tr)))"
      by (simp add: r')
  next
    assume b: "vaapi_image_is_mapped (Some img) \<and>
      vaUnmapBuffer drv (tr @ [Display_lock (display img)]) (buf (image img))
        \<noteq> VA_STATUS_SUCCESS"
    then show "vaapi_image_unmap drv (Some img) tr =
        (False, Some img,
         tr @ [Display_lock (display img), Call_vaUnmapBuffer (display img) (buf (image img)),
               Display_unlock (display img)])"
      using un by simp
    from b show "vaapi_image_is_mapped (Some img)" by simp
    from b show "image_data img \<noteq> NULL"
      by (simp add: vaapi_image_is_mapped_def internal_vaapi_image_is_mapped_def)
  qed
qed

theorem map_unmap_on_driver_failure_witness:
  "\<not> vaapi_image_is_mapped (Some unmapped_image) \<and>
   vaapi_image_map failing_driver (Some unmapped_image) [] =
     (False, Some unmapped_image,
      [Display_lock 1, Call_vaMapBuffer 1 9, Display_unlock 1]) \<and>
   vaapi_image_map scribbling_driver (Some unmapped_image) [] =
     (False, Some (unmapped_image\<lparr>image_data := 8192\<rparr>),
      [Display_lock 1, Call_vaMapBuffer 1 9, Display_unlock 1]) \<and>
   vaapi_image_is_mapped (Some mapped_image) \<and>
   vaapi_image_unmap failing_driver (Some mapped_image) [] =
     (False, Some mapped_image,
      [Display_lock 1, Call_vaUnmapBuffer 1 9, Display_unlock 1])"
proof -
  have u: "\<not> vaapi_image_is_mapped (Some unmapped_image)"
    and m: "vaapi_image_is_mapped (Some mapped_image)"
    by (simp_all add: vaapi_image_is_mapped_def internal_vaapi_image_is_mapped_def
        fixture_defs constant_defs)
  have d: "display unmapped_image = 1" "buf (image unmapped_image) = 9"
    "image_data unmapped_image = NULL" "display mapped_image = 1" "buf (image mapped_image) = 9"
    by (simp_all add: fixture_defs)
  have f: "fst (vaMapBuffer failing_driver tr' b p) \<noteq> VA_STATUS_SUCCESS"
    "snd (vaMapBuffer failing_driver tr' b p) = p"
    "fst (vaMapBuffer scribbling_driver tr' b p) \<noteq> VA_STATUS_SUCCESS"
    "snd (vaMapBuffer scribbling_driver tr' b p) = 8192"
    "vaUnmapBuffer failing_driver tr' b \<noteq> VA_STATUS_SUCCESS" for tr' b p
    by (simp_all add: failing_driver_def scribbling_driver_def VA_STATUS_SUCCESS_def)
  note t1 = map_unmap_on_driver_failure [of unmapped_image failing_driver "[]"]
  note t2 = map_unmap_on_driver_failure [of unmapped_image scribbling_driver "[]"]
  note t3 = map_unmap_on_driver_failure [of mapped_image failing_driver "[]"]
  from t1 u have a: "vaapi_image_map failing_driver (Some unmapped_image) [] =
     (False, Some unmapped_image, [Display_lock 1, Call_vaMapBuffer 1 9, Display_unlock 1])"
    by (simp add: d f)
  from t2 u have b: "vaapi_image_map scribbling_driver (Some unmapped_image) [] =
     (False, Some (unmapped_image\<lparr>image_data := 8192\<rparr>),
      [Display_lock 1, Call_vaMapBuffer 1 9, Display_unlock 1])"
    by (simp add: d f)
  from t3 m have c: "vaapi_image_unmap failing_driver (Some mapped_image) [] =
     (False, Some mapped_image, [Display_lock 1, Call_vaUnmapBuffer 1 9, Display_unlock 1])"
    by (simp add: d f)
  from u m a b c show ?thesis by simp
qed

text \<open>
  C3, as the claim has it: two consecutive maps issue at most one driver call. With a
  driver that refuses every map and leaves the slot null, the image is unmapped after the
  first map and the second map asks the driver again: two driver calls.
\<close>

theorem double_map_after_failure_calls_driver_twice:
  "\<not> map_calls (snd (snd (map_twice failing_driver (Some unmapped_image) []))) \<le> 1"
  by (simp add: map_twice_def vaapi_image_map_def internal_vaapi_image_map_def
      internal_vaapi_image_is_mapped_def vaapi_check_status_def map_calls_def
      fixture_defs constant_defs)

text \<open>
  C3, amended. Map on a mapped image returns TRUE with the image and the trace untouched
  (no driver call); unmap on an unmapped image, a never mapped one included, does the
  same. Two consecutive maps of which the first leaves the image mapped issue at most one
  driver map call: the second returns TRUE and changes neither the image nor the trace.
\<close>

theorem map_unmap_idempotent:
  "(vaapi_image_is_mapped (Some img) \<longrightarrow>
      vaapi_image_map drv (Some img) tr = (True, Some img, tr)) \<and>
   (\<not> vaapi_image_is_mapped (Some img) \<longrightarrow>
      vaapi_image_unmap drv (Some img) tr = (True, Some img, tr)) \<and>
   (vaapi_image_is_mapped (fst (snd (vaapi_image_map drv (Some img) tr))) \<longrightarrow>
      map_twice drv (Some img) tr =
        (True, fst (snd (vaapi_image_map drv (Some img) tr)),
         snd (snd (vaapi_image_map drv (Some img) tr))) \<and>
      map_calls (snd (snd (map_twice drv (Some img) tr))) \<le> map_calls tr + 1)"
proof (intro conjI impI)
  assume "vaapi_image_is_mapped (Some img)"
  then show "vaapi_image_map drv (Some img) tr = (True, Some img, tr)"
    by (simp add: vaapi_image_map_def vaapi_image_is_mapped_def map_when_mapped)
next
  assume "\<not> vaapi_image_is_mapped (Some img)"
  then show "vaapi_image_unmap drv (Some img) tr = (True, Some img, tr)"
    by (simp add: vaapi_image_unmap_def vaapi_image_is_mapped_def unmap_when_unmapped)
next
  assume m: "vaapi_image_is_mapped (fst (snd (vaapi_image_map drv (Some img) tr)))"
  obtain r1 img1 tr1 where r: "internal_vaapi_image_map drv img tr = (r1, img1, tr1)"
    by (cases "internal_vaapi_image_map drv img tr")
  from m r have m1: "internal_vaapi_image_is_mapped img1"
    by (simp add: vaapi_image_map_def vaapi_image_is_mapped_def)
  show t: "map_twice drv (Some img) tr =
        (True, fst (snd (vaapi_image_map drv (Some img) tr)),
         snd (snd (vaapi_image_map drv (Some img) tr)))"
    using r m1 by (simp add: map_twice_def vaapi_image_map_def map_when_mapped)
  have "map_calls tr1 \<le> map_calls tr + 1"
    using map_calls_one_map [of drv img tr] r by simp
  then show "map_calls (snd (snd (map_twice drv (Some img) tr))) \<le> map_calls tr + 1"
    using r by (simp add: t vaapi_image_map_def)
qed

theorem map_unmap_idempotent_witness:
  "vaapi_image_is_mapped (Some mapped_image) \<and>
   vaapi_image_map failing_driver (Some mapped_image) [] = (True, Some mapped_image, []) \<and>
   \<not> vaapi_image_is_mapped (Some unmapped_image) \<and>
   vaapi_image_unmap failing_driver (Some unmapped_image) [] = (True, Some unmapped_image, []) \<and>
   vaapi_image_is_mapped (fst (snd (vaapi_image_map working_driver (Some unmapped_image) []))) \<and>
   map_twice working_driver (Some unmapped_image) [] =
     (True, Some mapped_image, [Display_lock 1, Call_vaMapBuffer 1 9, Display_unlock 1]) \<and>
   map_calls (snd (snd (map_twice working_driver (Some unmapped_image) []))) = 1"
proof -
  have a: "vaapi_image_is_mapped (Some mapped_image)"
    and b: "\<not> vaapi_image_is_mapped (Some unmapped_image)"
    by (simp_all add: vaapi_image_is_mapped_def internal_vaapi_image_is_mapped_def
        fixture_defs constant_defs)
  have c: "vaapi_image_map working_driver (Some unmapped_image) [] =
      (True, Some mapped_image, [Display_lock 1, Call_vaMapBuffer 1 9, Display_unlock 1])"
    by (simp add: vaapi_image_map_def internal_vaapi_image_map_def
        internal_vaapi_image_is_mapped_def vaapi_check_status_def fixture_defs constant_defs)
  show ?thesis
    using a b c
      map_unmap_idempotent [of mapped_image failing_driver "[]"]
      map_unmap_idempotent [of unmapped_image failing_driver "[]"]
      map_unmap_idempotent [of unmapped_image working_driver "[]"]
    by (simp add: map_calls_def)
qed

section \<open>Construction\<close>

lemma new_with_image_result:
  assumes "image_id va \<noteq> VA_INVALID_ID" "buf va \<noteq> VA_INVALID_ID" "new0_ok drv tr"
  shows "vaapi_image_new_with_image drv dpy (Some va) tr =
     (Some \<lparr>ref_count = 1, display = dpy, internal_format = GST_VIDEO_FORMAT_NV12,
            image_data = NULL, width = ucast (va_width va), height = ucast (va_height va),
            image = va\<rparr>,
      tr @ [Display_ref dpy])"
  using assms
  by (simp add: vaapi_image_new_with_image_def gst_mfx_mini_object_new0_def
      gst_mfx_display_ref_def internal_vaapi_image_set_image_def)

text \<open>
  What adoption does take from the descriptor: the whole \<^verbatim>\<open>VAImage\<close> (handles, plane
  count, pitches, offsets, data size) and the geometry, its 16-bit width and height widened
  to \<^verbatim>\<open>guint\<close>.
\<close>

lemma adopted_image_geometry:
  assumes "image_id va \<noteq> VA_INVALID_ID" "buf va \<noteq> VA_INVALID_ID" "new0_ok drv tr"
  shows "vaapi_image_get_width (fst (vaapi_image_new_with_image drv dpy (Some va) tr))
           = ucast (va_width va) \<and>
         vaapi_image_get_height (fst (vaapi_image_new_with_image drv dpy (Some va) tr))
           = ucast (va_height va) \<and>
         vaapi_image_get_image (fst (vaapi_image_new_with_image drv dpy (Some va) tr)) (Some old)
           = (True, Some va)"
  by (simp add: new_with_image_result [OF assms] vaapi_image_get_width_def
      vaapi_image_get_height_def vaapi_image_get_image_def)

text \<open>
  C1. The claim has \<^verbatim>\<open>vaapi_image_get_format\<close> return the format of the adopted descriptor.
  \<^verbatim>\<open>_vaapi_image_set_image\<close> stores \<^verbatim>\<open>GST_VIDEO_FORMAT_NV12\<close> whatever the descriptor
  says: adopting a YV12 descriptor with valid handles gives an image that reports NV12.
\<close>

theorem adopted_yv12_image_reports_nv12:
  "vaapi_image_get_format
     (fst (vaapi_image_new_with_image working_driver 1 (Some yv12_va_image) []))
     = GST_VIDEO_FORMAT_NV12 \<and>
   image_id yv12_va_image \<noteq> VA_INVALID_ID \<and> buf yv12_va_image \<noteq> VA_INVALID_ID \<and>
   fourcc (format yv12_va_image) = VA_FOURCC_YV12 \<and>
   VA_FOURCC_YV12 \<noteq> VA_FOURCC_NV12 \<and>
   GST_VIDEO_FORMAT_NV12 \<noteq> GST_VIDEO_FORMAT_YV12"
  by (simp add: vaapi_image_new_with_image_def gst_mfx_mini_object_new0_def
      gst_mfx_display_ref_def internal_vaapi_image_set_image_def vaapi_image_get_format_def
      fixture_defs constant_defs)

text \<open>
  Whatever the driver, the image \<^verbatim>\<open>vaapi_image_new\<close> returns carries the \<^verbatim>\<open>VAImage\<close> that
  \<^verbatim>\<open>vaCreateImage\<close> left in \<^verbatim>\<open>image->image\<close>, unexamined.
\<close>

lemma new_image_descriptor:
  assumes "fst (vaapi_image_new drv dpy w h tr) = Some img"
  shows "image img =
     snd (vaCreateImage drv (tr @ [Display_ref dpy, Display_lock dpy]) va_format w h
            (zero_VAImage\<lparr>image_id := VA_INVALID_ID, buf := VA_INVALID_ID\<rparr>))"
  using assms
  by (auto simp add: vaapi_image_new_def gst_mfx_mini_object_new0_def gst_mfx_display_ref_def
      vaapi_image_create_def Let_def split: if_splits prod.splits)

text \<open>
  C4, as the claim has it: an image that \<^verbatim>\<open>vaapi_image_new\<close> returns has a plane count above
  zero. \<^verbatim>\<open>vaapi_image_create\<close> never reads \<^verbatim>\<open>num_planes\<close>: with a driver whose
  \<^verbatim>\<open>vaCreateImage\<close> reports success and leaves the descriptor as it was, the image comes
  back with the width and height asked for and a plane count of 0.
\<close>

theorem created_image_can_have_no_planes:
  "(0 :: guint) < 640 \<and> (0 :: guint) < 480 \<and> (1 :: GstMfxDisplay) \<noteq> NULL \<and>
   fst (vaapi_image_new planeless_driver 1 640 480 []) \<noteq> None \<and>
   vaapi_image_get_width (fst (vaapi_image_new planeless_driver 1 640 480 [])) = 640 \<and>
   vaapi_image_get_height (fst (vaapi_image_new planeless_driver 1 640 480 [])) = 480 \<and>
   vaapi_image_get_plane_count (fst (vaapi_image_new planeless_driver 1 640 480 [])) = 0"
  by (simp add: vaapi_image_new_def gst_mfx_mini_object_new0_def gst_mfx_display_ref_def
      vaapi_image_create_def vaapi_image_get_width_def vaapi_image_get_height_def
      vaapi_image_get_plane_count_def fixture_defs constant_defs)

text \<open>
  C4, amended. For a width and a height above zero and a display that is not null,
  \<^verbatim>\<open>vaapi_image_new\<close> returns either no object or an image whose width and height are the
  ones asked for, whose plane count is the one \<^verbatim>\<open>vaCreateImage\<close> left in the descriptor
  (above zero when the driver described at least one plane) and which is not mapped (its
  data pointer is null). An image is returned exactly when the allocation and the driver's
  \<^verbatim>\<open>vaCreateImage\<close> both succeed.
\<close>

theorem vaapi_image_new_postcondition:
  assumes "0 < w" "0 < h" "dpy \<noteq> NULL"
  shows "(case fst (vaapi_image_new drv dpy w h tr) of
            None \<Rightarrow> True
          | Some img \<Rightarrow>
              vaapi_image_get_width (Some img) = w \<and>
              vaapi_image_get_height (Some img) = h \<and>
              vaapi_image_get_plane_count (Some img) =
                num_planes
                  (snd (vaCreateImage drv (tr @ [Display_ref dpy, Display_lock dpy]) va_format w h
                          (zero_VAImage\<lparr>image_id := VA_INVALID_ID, buf := VA_INVALID_ID\<rparr>))) \<and>
              \<not> vaapi_image_is_mapped (Some img) \<and> image_data img = NULL) \<and>
         (fst (vaapi_image_new drv dpy w h tr) \<noteq> None \<longleftrightarrow>
            new0_ok drv tr \<and>
            fst (vaCreateImage drv (tr @ [Display_ref dpy, Display_lock dpy]) va_format w h
                   (zero_VAImage\<lparr>image_id := VA_INVALID_ID, buf := VA_INVALID_ID\<rparr>))
              = VA_STATUS_SUCCESS)"
proof (cases "new0_ok drv tr")
  case False
  then show ?thesis
    using assms by (simp add: vaapi_image_new_def gst_mfx_mini_object_new0_def)
next
  case True
  let ?old = "zero_VAImage\<lparr>image_id := VA_INVALID_ID, buf := VA_INVALID_ID\<rparr>"
  let ?call = "vaCreateImage drv (tr @ [Display_ref dpy, Display_lock dpy]) va_format w h ?old"
  obtain st va where c: "?call = (st, va)" by (cases ?call)
  show ?thesis
  proof (cases "st = VA_STATUS_SUCCESS")
    case False
    then show ?thesis
      using assms True c
      by (simp add: vaapi_image_new_def gst_mfx_mini_object_new0_def gst_mfx_display_ref_def
          vaapi_image_create_def)
  next
    case s: True
    show ?thesis
      using assms True c s
      by (simp add: vaapi_image_new_def gst_mfx_mini_object_new0_def gst_mfx_display_ref_def
          vaapi_image_create_def vaapi_image_get_width_def vaapi_image_get_height_def
          vaapi_image_get_plane_count_def vaapi_image_is_mapped_def
          internal_vaapi_image_is_mapped_def)
  qed
qed

theorem vaapi_image_new_postcondition_witness:
  "(0 :: guint) < 640 \<and> (0 :: guint) < 480 \<and> (1 :: GstMfxDisplay) \<noteq> NULL \<and>
   fst (vaapi_image_new working_driver 1 640 480 []) \<noteq> None \<and>
   vaapi_image_get_width (fst (vaapi_image_new working_driver 1 640 480 [])) = 640 \<and>
   vaapi_image_get_height (fst (vaapi_image_new working_driver 1 640 480 [])) = 480 \<and>
   vaapi_image_get_plane_count (fst (vaapi_image_new working_driver 1 640 480 [])) = 2 \<and>
   \<not> vaapi_image_is_mapped (fst (vaapi_image_new working_driver 1 640 480 []))"
proof -
  have w: "(0 :: guint) < 640" and h: "(0 :: guint) < 480" and d: "(1 :: GstMfxDisplay) \<noteq> NULL"
    by (simp_all add: NULL_def)
  have n: "vaapi_image_new working_driver 1 640 480 [] =
      (Some (unmapped_image\<lparr>image := nv12_va_image\<lparr>va_width := 640, va_height := 480\<rparr>\<rparr>),
       [Display_ref 1, Display_lock 1, Call_vaCreateImage 1 va_format 640 480, Display_unlock 1])"
    by (simp add: vaapi_image_new_def gst_mfx_mini_object_new0_def gst_mfx_display_ref_def
        vaapi_image_create_def fixture_defs constant_defs)
  show ?thesis
    using w h d vaapi_image_new_postcondition [OF w h d, of working_driver "[]"]
    unfolding n
    by (simp add: vaapi_image_get_plane_count_def vaapi_image_get_width_def
        vaapi_image_get_height_def vaapi_image_is_mapped_def nv12_va_image_def)
qed

section \<open>Destruction\<close>

lemma finalize_trace:
  "vaapi_image_finalize drv img tr =
     (if image_id (image img) \<noteq> VA_INVALID_ID
      then snd (snd (internal_vaapi_image_unmap drv img tr)) @
           [Display_lock (display img),
            Call_vaDestroyImage (display img) (image_id (image img)),
            Display_unlock (display img)] @
           (if vaDestroyImage drv
                 (snd (snd (internal_vaapi_image_unmap drv img tr)) @ [Display_lock (display img)])
                 (image_id (image img)) = VA_STATUS_SUCCESS
            then [] else [Log_warning (image_id (image img))])
      else snd (snd (internal_vaapi_image_unmap drv img tr))) @
     [Display_unref (display img)]"
proof -
  obtain r img1 tr1 where u: "internal_vaapi_image_unmap drv img tr = (r, img1, tr1)"
    by (cases "internal_vaapi_image_unmap drv img tr")
  from unmap_keeps [of drv img tr] u have k: "display img1 = display img" "image img1 = image img"
    by simp_all
  show ?thesis
    by (simp add: vaapi_image_finalize_def u k vaapi_image_get_id_def Let_def
        vaapi_check_status_def gst_mfx_display_unref_def)
qed

lemma finalize_ignores_ref_count:
  "vaapi_image_finalize drv (img\<lparr>ref_count := c\<rparr>) tr = vaapi_image_finalize drv img tr"
  by (simp add: finalize_trace unmap_trace internal_vaapi_image_is_mapped_def)

lemma unref_last:
  "ref_count img = 1 \<Longrightarrow>
     vaapi_image_unref drv img tr =
       (None, vaapi_image_finalize drv (img\<lparr>ref_count := 0\<rparr>) tr @ [Object_free])"
  by (simp add: vaapi_image_unref_def gst_mfx_mini_object_unref_def)

lemma new_create_fails:
  assumes "0 < w" "0 < h" "dpy \<noteq> NULL" "new0_ok drv tr"
    and "fst (vaCreateImage drv (tr @ [Display_ref dpy, Display_lock dpy]) va_format w h
                (zero_VAImage\<lparr>image_id := VA_INVALID_ID, buf := VA_INVALID_ID\<rparr>))
           \<noteq> VA_STATUS_SUCCESS"
  shows "vaapi_image_new drv dpy w h tr =
       (None,
        vaapi_image_finalize drv
          \<lparr>ref_count = 0, display = dpy, internal_format = 0, image_data = NULL,
           width = 0, height = 0,
           image = snd (vaCreateImage drv (tr @ [Display_ref dpy, Display_lock dpy]) va_format w h
                          (zero_VAImage\<lparr>image_id := VA_INVALID_ID, buf := VA_INVALID_ID\<rparr>))\<rparr>
          (tr @ [Display_ref dpy, Display_lock dpy, Call_vaCreateImage dpy va_format w h,
                 Display_unlock dpy]) @
        [Object_free])"
proof -
  let ?call = "vaCreateImage drv (tr @ [Display_ref dpy, Display_lock dpy]) va_format w h
                 (zero_VAImage\<lparr>image_id := VA_INVALID_ID, buf := VA_INVALID_ID\<rparr>)"
  obtain st va where c: "?call = (st, va)" by (cases ?call)
  with assms(5) have st: "st \<noteq> VA_STATUS_SUCCESS" by simp
  show ?thesis
    using assms(1-4) c st
    by (simp add: vaapi_image_new_def gst_mfx_mini_object_new0_def gst_mfx_display_ref_def
        vaapi_image_create_def vaapi_image_unref_def gst_mfx_mini_object_unref_def)
qed

text \<open>
  C5. A construction failure unwinds through the destruction path. When \<^verbatim>\<open>vaCreateImage\<close>
  fails inside \<^verbatim>\<open>vaapi_image_new\<close>, no object is returned and the rest of the trace is
  \<^verbatim>\<open>vaapi_image_finalize\<close> run on the partly built image, followed by the release of its
  storage; releasing the last reference of any image runs the same routine. On an image
  whose \<^verbatim>\<open>image_id\<close> is \<^verbatim>\<open>VA_INVALID_ID\<close>, finalize adds no \<^verbatim>\<open>vaDestroyImage\<close> call to
  the trace and ends by releasing the display reference.
\<close>

theorem construction_failure_unwinds_through_finalize:
  "(0 < w \<and> 0 < h \<and> dpy \<noteq> NULL \<and> new0_ok drv tr \<and>
    fst (vaCreateImage drv (tr @ [Display_ref dpy, Display_lock dpy]) va_format w h
           (zero_VAImage\<lparr>image_id := VA_INVALID_ID, buf := VA_INVALID_ID\<rparr>))
      \<noteq> VA_STATUS_SUCCESS \<longrightarrow>
      vaapi_image_new drv dpy w h tr =
       (None,
        vaapi_image_finalize drv
          \<lparr>ref_count = 0, display = dpy, internal_format = 0, image_data = NULL,
           width = 0, height = 0,
           image = snd (vaCreateImage drv (tr @ [Display_ref dpy, Display_lock dpy]) va_format w h
                          (zero_VAImage\<lparr>image_id := VA_INVALID_ID, buf := VA_INVALID_ID\<rparr>))\<rparr>
          (tr @ [Display_ref dpy, Display_lock dpy, Call_vaCreateImage dpy va_format w h,
                 Display_unlock dpy]) @
        [Object_free])) \<and>
   (ref_count img = 1 \<longrightarrow>
      vaapi_image_unref drv img tr =
        (None, vaapi_image_finalize drv (img\<lparr>ref_count := 0\<rparr>) tr @ [Object_free])) \<and>
   (image_id (image img) = VA_INVALID_ID \<longrightarrow>
      vaapi_image_finalize drv img tr =
        snd (snd (internal_vaapi_image_unmap drv img tr)) @ [Display_unref (display img)] \<and>
      destroy_calls (vaapi_image_finalize drv img tr) = destroy_calls tr)"
proof (intro conjI impI)
  assume "image_id (image img) = VA_INVALID_ID"
  then show f: "vaapi_image_finalize drv img tr =
        snd (snd (internal_vaapi_image_unmap drv img tr)) @ [Display_unref (display img)]"
    by (simp add: finalize_trace)
  show "destroy_calls (vaapi_image_finalize drv img tr) = destroy_calls tr"
    using destroy_calls_unmap [of drv img tr] by (simp add: f destroy_calls_def)
qed (simp_all add: new_create_fails unref_last)

theorem construction_failure_unwinds_through_finalize_witness:
  "(0 :: guint) < 640 \<and> (0 :: guint) < 480 \<and> (1 :: GstMfxDisplay) \<noteq> NULL \<and>
   new0_ok failing_driver [] \<and>
   vaapi_image_new failing_driver 1 640 480 [] =
     (None,
      vaapi_image_finalize failing_driver (unbacked_image\<lparr>ref_count := 0, internal_format := 0,
          width := 0, height := 0\<rparr>)
        [Display_ref 1, Display_lock 1, Call_vaCreateImage 1 va_format 640 480, Display_unlock 1]
      @ [Object_free]) \<and>
   snd (vaapi_image_new failing_driver 1 640 480 []) =
     [Display_ref 1, Display_lock 1, Call_vaCreateImage 1 va_format 640 480, Display_unlock 1,
      Display_unref 1, Object_free] \<and>
   ref_count unbacked_image = 1 \<and> image_id (image unbacked_image) = VA_INVALID_ID \<and>
   vaapi_image_unref failing_driver unbacked_image [] = (None, [Display_unref 1, Object_free]) \<and>
   vaapi_image_finalize failing_driver unbacked_image [] = [Display_unref 1] \<and>
   destroy_calls (vaapi_image_finalize failing_driver unbacked_image []) = 0"
proof -
  have w: "(0 :: guint) < 640" and h: "(0 :: guint) < 480" and d: "(1 :: GstMfxDisplay) \<noteq> NULL"
    by (simp_all add: NULL_def)
  have a: "new0_ok failing_driver []"
    by (simp add: failing_driver_def)
  have f: "fst (vaCreateImage failing_driver ([] @ [Display_ref 1, Display_lock 1]) va_format
                  640 480 (zero_VAImage\<lparr>image_id := VA_INVALID_ID, buf := VA_INVALID_ID\<rparr>))
             \<noteq> VA_STATUS_SUCCESS"
    by (simp add: failing_driver_def VA_STATUS_SUCCESS_def)
  have r: "ref_count unbacked_image = 1"
    and i: "image_id (image unbacked_image) = VA_INVALID_ID"
    and u: "\<not> internal_vaapi_image_is_mapped unbacked_image"
    and dp: "display unbacked_image = 1"
    by (simp_all add: unbacked_image_def unmapped_image_def internal_vaapi_image_is_mapped_def)
  have p: "\<lparr>ref_count = 0, display = 1, internal_format = 0, image_data = NULL,
            width = 0, height = 0,
            image = snd (vaCreateImage failing_driver ([] @ [Display_ref 1, Display_lock 1])
                           va_format 640 480
                           (zero_VAImage\<lparr>image_id := VA_INVALID_ID, buf := VA_INVALID_ID\<rparr>))\<rparr>
      = unbacked_image\<lparr>ref_count := 0, internal_format := 0, width := 0, height := 0\<rparr>"
    by (simp add: failing_driver_def unbacked_image_def unmapped_image_def)
  note t = construction_failure_unwinds_through_finalize
             [of 640 480 1 failing_driver "[]" unbacked_image]
  from t w h d a f have n: "vaapi_image_new failing_driver 1 640 480 [] =
     (None,
      vaapi_image_finalize failing_driver (unbacked_image\<lparr>ref_count := 0, internal_format := 0,
          width := 0, height := 0\<rparr>)
        [Display_ref 1, Display_lock 1, Call_vaCreateImage 1 va_format 640 480, Display_unlock 1]
      @ [Object_free])"
    unfolding p by simp
  from t i have fin: "vaapi_image_finalize failing_driver unbacked_image [] = [Display_unref 1]"
    by (simp add: unmap_when_unmapped [OF u] dp)
  from t r have un: "vaapi_image_unref failing_driver unbacked_image []
      = (None, vaapi_image_finalize failing_driver (unbacked_image\<lparr>ref_count := 0\<rparr>) []
               @ [Object_free])"
    by simp
  have s: "snd (vaapi_image_new failing_driver 1 640 480 []) =
     [Display_ref 1, Display_lock 1, Call_vaCreateImage 1 va_format 640 480, Display_unlock 1,
      Display_unref 1, Object_free]"
    unfolding n
    by (simp add: finalize_trace unmap_trace internal_vaapi_image_is_mapped_def
        unbacked_image_def unmapped_image_def)
  show ?thesis
    using w h d a r i n s fin un
    by (simp add: finalize_ignores_ref_count destroy_calls_def)
qed

text \<open>
  C7. When the last reference of an image goes, \<^verbatim>\<open>vaapi_image_finalize\<close> runs, and for an
  image whose \<^verbatim>\<open>image_id\<close> is valid it calls \<^verbatim>\<open>vaDestroyImage\<close> on that id between the lock
  and the unlock of the image's display; when the driver reports a failure a warning is
  logged, and either way the display reference is released next. An image adopted from a
  foreign descriptor carries the descriptor's id, so it is that id which is destroyed.
\<close>

theorem last_unref_destroys_valid_image:
  "(image_id (image img) \<noteq> VA_INVALID_ID \<longrightarrow>
      vaapi_image_finalize drv img tr =
        snd (snd (internal_vaapi_image_unmap drv img tr)) @
        [Display_lock (display img),
         Call_vaDestroyImage (display img) (image_id (image img)),
         Display_unlock (display img)] @
        (if vaDestroyImage drv
              (snd (snd (internal_vaapi_image_unmap drv img tr)) @ [Display_lock (display img)])
              (image_id (image img)) = VA_STATUS_SUCCESS
         then [] else [Log_warning (image_id (image img))]) @
        [Display_unref (display img)]) \<and>
   (ref_count img = 1 \<longrightarrow>
      vaapi_image_unref drv img tr =
        (None, vaapi_image_finalize drv img tr @ [Object_free])) \<and>
   (image_id va \<noteq> VA_INVALID_ID \<and> buf va \<noteq> VA_INVALID_ID \<and> new0_ok drv tr0 \<longrightarrow>
      (\<exists>adopted.
         vaapi_image_new_with_image drv dpy (Some va) tr0 = (Some adopted, tr0 @ [Display_ref dpy]) \<and>
         vaapi_image_get_id (Some adopted) = image_id va \<and>
         vaapi_image_unref drv adopted tr =
           (None,
            tr @ [Display_lock dpy, Call_vaDestroyImage dpy (image_id va), Display_unlock dpy] @
            (if vaDestroyImage drv (tr @ [Display_lock dpy]) (image_id va) = VA_STATUS_SUCCESS
             then [] else [Log_warning (image_id va)]) @
            [Display_unref dpy, Object_free])))"
proof (intro conjI impI)
  assume "image_id (image img) \<noteq> VA_INVALID_ID"
  then show "vaapi_image_finalize drv img tr =
        snd (snd (internal_vaapi_image_unmap drv img tr)) @
        [Display_lock (display img),
         Call_vaDestroyImage (display img) (image_id (image img)),
         Display_unlock (display img)] @
        (if vaDestroyImage drv
              (snd (snd (internal_vaapi_image_unmap drv img tr)) @ [Display_lock (display img)])
              (image_id (image img)) = VA_STATUS_SUCCESS
         then [] else [Log_warning (image_id (image img))]) @
        [Display_unref (display img)]"
    by (simp add: finalize_trace)
next
  assume "ref_count img = 1"
  then show "vaapi_image_unref drv img tr =
        (None, vaapi_image_finalize drv img tr @ [Object_free])"
    by (simp add: unref_last finalize_ignores_ref_count)
next
  assume a: "image_id va \<noteq> VA_INVALID_ID \<and> buf va \<noteq> VA_INVALID_ID \<and> new0_ok drv tr0"
  let ?adopted = "\<lparr>ref_count = 1, display = dpy, internal_format = GST_VIDEO_FORMAT_NV12,
            image_data = NULL, width = ucast (va_width va), height = ucast (va_height va),
            image = va\<rparr>"
  have n: "vaapi_image_new_with_image drv dpy (Some va) tr0
             = (Some ?adopted, tr0 @ [Display_ref dpy])"
    using a by (simp add: new_with_image_result)
  have i: "vaapi_image_get_id (Some ?adopted) = image_id va"
    by (simp add: vaapi_image_get_id_def)
  have u: "vaapi_image_unref drv ?adopted tr =
           (None,
            tr @ [Display_lock dpy, Call_vaDestroyImage dpy (image_id va), Display_unlock dpy] @
            (if vaDestroyImage drv (tr @ [Display_lock dpy]) (image_id va) = VA_STATUS_SUCCESS
             then [] else [Log_warning (image_id va)]) @
            [Display_unref dpy, Object_free])"
    using a
    by (simp add: unref_last finalize_trace unmap_trace internal_vaapi_image_is_mapped_def)
  from n i u show "\<exists>adopted.
         vaapi_image_new_with_image drv dpy (Some va) tr0 = (Some adopted, tr0 @ [Display_ref dpy]) \<and>
         vaapi_image_get_id (Some adopted) = image_id va \<and>
         vaapi_image_unref drv adopted tr =
           (None,
            tr @ [Display_lock dpy, Call_vaDestroyImage dpy (image_id va), Display_unlock dpy] @
            (if vaDestroyImage drv (tr @ [Display_lock dpy]) (image_id va) = VA_STATUS_SUCCESS
             then [] else [Log_warning (image_id va)]) @
            [Display_unref dpy, Object_free])"
    by blast
qed

theorem last_unref_destroys_valid_image_witness:
  "image_id (image mapped_image) \<noteq> VA_INVALID_ID \<and> ref_count mapped_image = 1 \<and>
   vaapi_image_unref failing_driver mapped_image [] =
     (None,
      [Display_lock 1, Call_vaUnmapBuffer 1 9, Display_unlock 1,
       Display_lock 1, Call_vaDestroyImage 1 7, Display_unlock 1, Log_warning 7,
       Display_unref 1, Object_free]) \<and>
   image_id nv12_va_image \<noteq> VA_INVALID_ID \<and> buf nv12_va_image \<noteq> VA_INVALID_ID \<and>
   new0_ok working_driver [] \<and>
   vaapi_image_new_with_image working_driver 1 (Some nv12_va_image) [] =
     (Some unmapped_image, [Display_ref 1]) \<and>
   vaapi_image_unref working_driver unmapped_image [Display_ref 1] =
     (None,
      [Display_ref 1, Display_lock 1, Call_vaDestroyImage 1 7, Display_unlock 1,
       Display_unref 1, Object_free])"
proof -
  have i: "image_id (image mapped_image) \<noteq> VA_INVALID_ID"
    and r: "ref_count mapped_image = 1"
    and m: "internal_vaapi_image_is_mapped mapped_image"
    and dm: "display mapped_image = 1" "buf (image mapped_image) = 9"
      "image_id (image mapped_image) = 7"
    by (simp_all add: internal_vaapi_image_is_mapped_def fixture_defs constant_defs)
  have v: "image_id nv12_va_image \<noteq> VA_INVALID_ID" "buf nv12_va_image \<noteq> VA_INVALID_ID"
    "new0_ok working_driver []" "image_id nv12_va_image = 7"
    by (simp_all add: fixture_defs constant_defs)
  have n: "vaapi_image_new_with_image working_driver 1 (Some nv12_va_image) [] =
     (Some unmapped_image, [Display_ref 1])"
    unfolding new_with_image_result [OF v(1-3)]
    by (simp add: fixture_defs constant_defs)
  note t1 = last_unref_destroys_valid_image
              [where img = mapped_image and drv = failing_driver and tr = "[]"]
  note t2 = last_unref_destroys_valid_image
              [where drv = working_driver and tr = "[Display_ref 1]" and va = nv12_va_image
                 and ?tr0.0 = "[]" and dpy = 1]
  from t1 i r have u1: "vaapi_image_unref failing_driver mapped_image [] =
     (None,
      [Display_lock 1, Call_vaUnmapBuffer 1 9, Display_unlock 1,
       Display_lock 1, Call_vaDestroyImage 1 7, Display_unlock 1, Log_warning 7,
       Display_unref 1, Object_free])"
    by (simp add: unmap_trace m dm failing_driver_def VA_STATUS_SUCCESS_def)
  from t2 v(1-3) have u2: "vaapi_image_unref working_driver unmapped_image [Display_ref 1] =
     (None,
      [Display_ref 1, Display_lock 1, Call_vaDestroyImage 1 7, Display_unlock 1,
       Display_unref 1, Object_free])"
    unfolding n by (simp add: v(4) working_driver_def)
  show ?thesis
    using i r v(1-3) n u1 u2 by simp
qed

section \<open>Accessors\<close>

text \<open>
  C6, as the claim has it: on a mapped image, every plane number below the plane count
  gives the mapped base plus \<^verbatim>\<open>offsets[plane]\<close>. A descriptor with valid handles that
  announces four planes is adopted as it is, and on the mapped image plane 3 is below the
  plane count while \<^verbatim>\<open>offsets\<close> has three elements: the read is past the end of the array,
  and the result is the base plus none of its offsets.
\<close>

theorem vaapi_image_get_plane_reads_past_offsets:
  "vaapi_image_new_with_image working_driver 1 (Some four_plane_va_image) [] =
     (Some (four_plane_image\<lparr>image_data := NULL\<rparr>), [Display_ref 1]) \<and>
   fst (snd (vaapi_image_map working_driver (Some (four_plane_image\<lparr>image_data := NULL\<rparr>))
               [Display_ref 1])) = Some four_plane_image \<and>
   vaapi_image_is_mapped (Some four_plane_image) \<and>
   (3 :: guint) < vaapi_image_get_plane_count (Some four_plane_image) \<and>
   vaapi_image_get_plane (Some four_plane_image) 3 = None"
  by (simp add: vaapi_image_new_with_image_def gst_mfx_mini_object_new0_def
      gst_mfx_display_ref_def internal_vaapi_image_set_image_def vaapi_image_map_def
      internal_vaapi_image_map_def vaapi_check_status_def vaapi_image_is_mapped_def
      internal_vaapi_image_is_mapped_def vaapi_image_get_plane_count_def
      vaapi_image_get_plane_def fixture_defs constant_defs)

text \<open>
  C6, amended. On a mapped image and a plane number below the plane count and below 3,
  the length of \<^verbatim>\<open>offsets\<close>, \<^verbatim>\<open>vaapi_image_get_plane\<close> returns the mapped base plus the
  element of \<^verbatim>\<open>offsets\<close> at that plane number: the first for plane 0, the second for
  plane 1, the third for plane 2. On an unmapped image, or for a plane number that is not
  below the plane count, it returns NULL.
\<close>

theorem vaapi_image_get_plane_spec:
  "(vaapi_image_is_mapped (Some img) \<and> plane < vaapi_image_get_plane_count (Some img) \<and>
    offsets (image img) = (o0, o1, o2) \<longrightarrow>
      (plane = 0 \<longrightarrow> vaapi_image_get_plane (Some img) plane = Some (image_data img + unat o0)) \<and>
      (plane = 1 \<longrightarrow> vaapi_image_get_plane (Some img) plane = Some (image_data img + unat o1)) \<and>
      (plane = 2 \<longrightarrow> vaapi_image_get_plane (Some img) plane = Some (image_data img + unat o2))) \<and>
   (\<not> vaapi_image_is_mapped (Some img) \<or> \<not> plane < vaapi_image_get_plane_count (Some img) \<longrightarrow>
      vaapi_image_get_plane (Some img) plane = Some NULL)"
proof -
  have p: "vaapi_image_get_plane (Some img) k = Some (image_data img + unat x)"
    if "vaapi_image_is_mapped (Some img)" "k < vaapi_image_get_plane_count (Some img)"
      and "array3_nth (offsets (image img)) (unat k) = Some x" for k x
    using that
    by (simp add: vaapi_image_get_plane_def vaapi_image_is_mapped_def
        vaapi_image_get_plane_count_def)
  have n: "vaapi_image_get_plane (Some img) plane = Some NULL"
    if "\<not> vaapi_image_is_mapped (Some img) \<or> \<not> plane < vaapi_image_get_plane_count (Some img)"
    using that
    by (auto simp add: vaapi_image_get_plane_def vaapi_image_is_mapped_def
        vaapi_image_get_plane_count_def)
  show ?thesis
  proof (intro conjI impI)
    assume a: "vaapi_image_is_mapped (Some img) \<and>
      plane < vaapi_image_get_plane_count (Some img) \<and> offsets (image img) = (o0, o1, o2)"
    {
      assume "plane = 0"
      with a p [of 0 o0]
      show "vaapi_image_get_plane (Some img) plane = Some (image_data img + unat o0)"
        by simp
    }
    {
      assume "plane = 1"
      with a p [of 1 o1]
      show "vaapi_image_get_plane (Some img) plane = Some (image_data img + unat o1)"
        by simp
    }
    {
      assume "plane = 2"
      with a p [of 2 o2]
      show "vaapi_image_get_plane (Some img) plane = Some (image_data img + unat o2)"
        by simp
    }
  next
    assume "\<not> vaapi_image_is_mapped (Some img) \<or>
      \<not> plane < vaapi_image_get_plane_count (Some img)"
    then show "vaapi_image_get_plane (Some img) plane = Some NULL"
      by (rule n)
  qed
qed

theorem vaapi_image_get_plane_spec_witness:
  "vaapi_image_is_mapped (Some four_plane_image) \<and>
   (2 :: guint) < vaapi_image_get_plane_count (Some four_plane_image) \<and>
   offsets (image four_plane_image) = (0, 307200, 384000) \<and>
   vaapi_image_get_plane (Some four_plane_image) 0 = Some 4096 \<and>
   vaapi_image_get_plane (Some four_plane_image) 1 = Some (4096 + 307200) \<and>
   vaapi_image_get_plane (Some four_plane_image) 2 = Some (4096 + 384000) \<and>
   \<not> vaapi_image_is_mapped (Some unmapped_image) \<and>
   vaapi_image_get_plane (Some unmapped_image) 1 = Some NULL \<and>
   vaapi_image_is_mapped (Some mapped_image) \<and>
   \<not> (2 :: guint) < vaapi_image_get_plane_count (Some mapped_image) \<and>
   vaapi_image_get_plane (Some mapped_image) 2 = Some NULL"
proof -
  have m: "vaapi_image_is_mapped (Some four_plane_image)"
    and m': "vaapi_image_is_mapped (Some mapped_image)"
    and u: "\<not> vaapi_image_is_mapped (Some unmapped_image)"
    and c: "vaapi_image_get_plane_count (Some four_plane_image) = 4"
      "vaapi_image_get_plane_count (Some mapped_image) = 2"
    and o: "offsets (image four_plane_image) = (0, 307200, 384000)"
    and b: "image_data four_plane_image = 4096"
    by (simp_all add: vaapi_image_is_mapped_def internal_vaapi_image_is_mapped_def
        vaapi_image_get_plane_count_def fixture_defs constant_defs)
  note t = vaapi_image_get_plane_spec
             [where img = four_plane_image and ?o0.0 = 0 and ?o1.0 = 307200 and ?o2.0 = 384000]
  from t [of 0] m c o b have p0: "vaapi_image_get_plane (Some four_plane_image) 0 = Some 4096"
    by simp
  from t [of 1] m c o b
  have p1: "vaapi_image_get_plane (Some four_plane_image) 1 = Some (4096 + 307200)"
    by simp
  from t [of 2] m c o b
  have p2: "vaapi_image_get_plane (Some four_plane_image) 2 = Some (4096 + 384000)"
    by simp
  from vaapi_image_get_plane_spec [of unmapped_image 1] u
  have q: "vaapi_image_get_plane (Some unmapped_image) 1 = Some NULL"
    by simp
  from vaapi_image_get_plane_spec [of mapped_image 2] c
  have r: "vaapi_image_get_plane (Some mapped_image) 2 = Some NULL"
    by simp
  from m m' u c o p0 p1 p2 q r show ?thesis by simp
qed

text \<open>
  C8. Every public query given a null image returns its default and touches nothing:
  \<^verbatim>\<open>VA_INVALID_ID\<close> for the id, 0 for the format, the width, the height, a pitch, an
  offset, the data size and the plane count, NULL for a plane, FALSE for is_mapped, map,
  unmap and get_image (map and unmap leave the trace as it was, get_image leaves the
  caller's slot as it was).
\<close>

theorem null_image_queries_return_defaults:
  "vaapi_image_get_id None = VA_INVALID_ID \<and>
   vaapi_image_get_format None = 0 \<and>
   vaapi_image_get_width None = 0 \<and>
   vaapi_image_get_height None = 0 \<and>
   vaapi_image_get_pitch None plane = Some 0 \<and>
   vaapi_image_get_offset None plane = Some 0 \<and>
   vaapi_image_get_data_size None = 0 \<and>
   vaapi_image_get_plane_count None = 0 \<and>
   vaapi_image_get_plane None plane = Some NULL \<and>
   vaapi_image_is_mapped None = False \<and>
   vaapi_image_map drv None tr = (False, None, tr) \<and>
   vaapi_image_unmap drv None tr = (False, None, tr) \<and>
   vaapi_image_get_image None va_image = (False, va_image)"
  by (simp add: vaapi_image_get_id_def vaapi_image_get_format_def vaapi_image_get_width_def
      vaapi_image_get_height_def vaapi_image_get_pitch_def vaapi_image_get_offset_def
      vaapi_image_get_data_size_def vaapi_image_get_plane_count_def vaapi_image_get_plane_def
      vaapi_image_is_mapped_def vaapi_image_map_def vaapi_image_unmap_def
      vaapi_image_get_image_def)

text \<open>
  C9. On an image that is not null, \<^verbatim>\<open>vaapi_image_get_image\<close> returns TRUE either way:
  given a slot it leaves the image's own \<^verbatim>\<open>VAImage\<close> in it, given a null pointer it writes
  nothing. The function only reads the image.
\<close>

theorem vaapi_image_get_image_both_modes:
  "vaapi_image_get_image (Some img) (Some old) = (True, Some (image img)) \<and>
   vaapi_image_get_image (Some img) None = (True, None)"
  by (simp add: vaapi_image_get_image_def)

section \<open>Task roles\<close>

lemma bit0_type_flags: "bit (type_flags rs) 0 \<longleftrightarrow> GST_MFX_TASK_DECODER \<in> set rs"
proof (induction rs)
  case Nil
  show ?case by simp
next
  case (Cons r rs)
  then show ?case by (cases r) (simp_all add: bit_or_iff)
qed

lemma bit1_type_flags: "bit (type_flags rs) 1 \<longleftrightarrow> GST_MFX_TASK_VPP_IN \<in> set rs"
proof (induction rs)
  case Nil
  show ?case by simp
next
  case (Cons r rs)
  then show ?case by (cases r) (simp_all add: bit_or_iff)
qed

lemma bit2_type_flags: "bit (type_flags rs) 2 \<longleftrightarrow> GST_MFX_TASK_VPP_OUT \<in> set rs"
proof (induction rs)
  case Nil
  show ?case by simp
next
  case (Cons r rs)
  then show ?case by (cases r) (simp_all add: bit_or_iff)
qed

lemma bit3_type_flags: "bit (type_flags rs) 3 \<longleftrightarrow> GST_MFX_TASK_ENCODER \<in> set rs"
proof (induction rs)
  case Nil
  show ?case by simp
next
  case (Cons r rs)
  then show ?case by (cases r) (simp_all add: bit_or_iff)
qed

lemma role_in_flags:
  assumes "type_flags xs = type_flags ys" "r \<noteq> GST_MFX_TASK_INVALID"
  shows "r \<in> set xs \<longleftrightarrow> r \<in> set ys"
  using assms bit0_type_flags bit1_type_flags bit2_type_flags bit3_type_flags
  by (cases r) metis+

lemma type_flags_normal_form:
  "type_flags rs =
     (if GST_MFX_TASK_DECODER \<in> set rs then 1 else 0) OR
     (if GST_MFX_TASK_VPP_IN \<in> set rs then 2 else 0) OR
     (if GST_MFX_TASK_VPP_OUT \<in> set rs then 4 else 0) OR
     (if GST_MFX_TASK_ENCODER \<in> set rs then 8 else 0)"
proof (induction rs)
  case Nil
  show ?case by simp
next
  case (Cons r rs)
  show ?case
    unfolding type_flags.simps Cons.IH
    by (cases r) (simp_all add: or.assoc or.left_commute)
qed

lemma type_flags_of_set: "set xs = set ys \<Longrightarrow> type_flags xs = type_flags ys"
  by (simp add: type_flags_normal_form)

lemma type_flags_inj:
  assumes "GST_MFX_TASK_INVALID \<notin> set xs" "GST_MFX_TASK_INVALID \<notin> set ys"
  shows "type_flags xs = type_flags ys \<longleftrightarrow> set xs = set ys"
proof
  assume e: "type_flags xs = type_flags ys"
  show "set xs = set ys"
  proof (rule set_eqI)
    fix r
    show "r \<in> set xs \<longleftrightarrow> r \<in> set ys"
    proof (cases "r = GST_MFX_TASK_INVALID")
      case True
      then show ?thesis using assms by simp
    next
      case False
      then show ?thesis using e by (rule role_in_flags [rotated])
    qed
  qed
next
  assume "set xs = set ys"
  then show "type_flags xs = type_flags ys" by (rule type_flags_of_set)
qed

lemma type_flags_nonzero:
  assumes "rs \<noteq> []" "GST_MFX_TASK_INVALID \<notin> set rs"
  shows "type_flags rs \<noteq> 0"
proof
  from assms obtain r where r: "r \<in> set rs" "r \<noteq> GST_MFX_TASK_INVALID"
    by (cases rs) auto
  assume "type_flags rs = 0"
  then have "type_flags rs = type_flags []" by simp
  then have "r \<in> set []" using r role_in_flags by blast
  then show False by simp
qed

text \<open>
  C10. The four role flags are the single bits 1, 2, 4 and 8, pairwise distinct, and the
  invalid role is 0. Two selections of roles have the same \<^verbatim>\<open>type_flags\<close> word exactly
  when they select the same roles, and the word of a selection that is not empty is not
  zero, so it is not the invalid value.
\<close>

theorem task_role_flags_unique:
  "task_type_value GST_MFX_TASK_INVALID = 0 \<and>
   task_type_value GST_MFX_TASK_DECODER = 1 \<and> task_type_value GST_MFX_TASK_DECODER = 2 ^ 0 \<and>
   task_type_value GST_MFX_TASK_VPP_IN = 2 \<and> task_type_value GST_MFX_TASK_VPP_IN = 2 ^ 1 \<and>
   task_type_value GST_MFX_TASK_VPP_OUT = 4 \<and> task_type_value GST_MFX_TASK_VPP_OUT = 2 ^ 2 \<and>
   task_type_value GST_MFX_TASK_ENCODER = 8 \<and> task_type_value GST_MFX_TASK_ENCODER = 2 ^ 3 \<and>
   distinct (map task_type_value
     [GST_MFX_TASK_INVALID, GST_MFX_TASK_DECODER, GST_MFX_TASK_VPP_IN, GST_MFX_TASK_VPP_OUT,
      GST_MFX_TASK_ENCODER]) \<and>
   (GST_MFX_TASK_INVALID \<notin> set xs \<and> GST_MFX_TASK_INVALID \<notin> set ys \<longrightarrow>
      (type_flags xs = type_flags ys \<longleftrightarrow> set xs = set ys)) \<and>
   (xs \<noteq> [] \<and> GST_MFX_TASK_INVALID \<notin> set xs \<longrightarrow>
      type_flags xs \<noteq> 0 \<and> type_flags xs \<noteq> task_type_value GST_MFX_TASK_INVALID)"
proof -
  have v: "task_type_value GST_MFX_TASK_INVALID = 0"
    "task_type_value GST_MFX_TASK_DECODER = 1" "task_type_value GST_MFX_TASK_DECODER = 2 ^ 0"
    "task_type_value GST_MFX_TASK_VPP_IN = 2" "task_type_value GST_MFX_TASK_VPP_IN = 2 ^ 1"
    "task_type_value GST_MFX_TASK_VPP_OUT = 4" "task_type_value GST_MFX_TASK_VPP_OUT = 2 ^ 2"
    "task_type_value GST_MFX_TASK_ENCODER = 8" "task_type_value GST_MFX_TASK_ENCODER = 2 ^ 3"
    by simp_all
  have d: "distinct (map task_type_value
     [GST_MFX_TASK_INVALID, GST_MFX_TASK_DECODER, GST_MFX_TASK_VPP_IN, GST_MFX_TASK_VPP_OUT,
      GST_MFX_TASK_ENCODER])"
    by simp
  have i: "GST_MFX_TASK_INVALID \<notin> set xs \<and> GST_MFX_TASK_INVALID \<notin> set ys \<longrightarrow>
      (type_flags xs = type_flags ys \<longleftrightarrow> set xs = set ys)"
    using type_flags_inj by blast
  have n: "xs \<noteq> [] \<and> GST_MFX_TASK_INVALID \<notin> set xs \<longrightarrow>
      type_flags xs \<noteq> 0 \<and> type_flags xs \<noteq> task_type_value GST_MFX_TASK_INVALID"
    using type_flags_nonzero by simp
  from v d i n show ?thesis by blast
qed

theorem task_role_flags_unique_witness:
  "GST_MFX_TASK_INVALID \<notin> set [GST_MFX_TASK_DECODER, GST_MFX_TASK_VPP_IN] \<and>
   GST_MFX_TASK_INVALID \<notin> set [GST_MFX_TASK_VPP_IN, GST_MFX_TASK_DECODER, GST_MFX_TASK_VPP_IN] \<and>
   set [GST_MFX_TASK_DECODER, GST_MFX_TASK_VPP_IN] =
     set [GST_MFX_TASK_VPP_IN, GST_MFX_TASK_DECODER, GST_MFX_TASK_VPP_IN] \<and>
   type_flags [GST_MFX_TASK_DECODER, GST_MFX_TASK_VPP_IN] =
     type_flags [GST_MFX_TASK_VPP_IN, GST_MFX_TASK_DECODER, GST_MFX_TASK_VPP_IN] \<and>
   [GST_MFX_TASK_DECODER, GST_MFX_TASK_VPP_IN] \<noteq> [] \<and>
   type_flags [GST_MFX_TASK_DECODER, GST_MFX_TASK_VPP_IN] \<noteq> 0 \<and>
   type_flags [GST_MFX_TASK_DECODER, GST_MFX_TASK_VPP_IN] = 3"
proof -
  have s: "set [GST_MFX_TASK_DECODER, GST_MFX_TASK_VPP_IN] =
     set [GST_MFX_TASK_VPP_IN, GST_MFX_TASK_DECODER, GST_MFX_TASK_VPP_IN]"
    by auto
  have a: "GST_MFX_TASK_INVALID \<notin> set [GST_MFX_TASK_DECODER, GST_MFX_TASK_VPP_IN]"
    and b: "GST_MFX_TASK_INVALID
              \<notin> set [GST_MFX_TASK_VPP_IN, GST_MFX_TASK_DECODER, GST_MFX_TASK_VPP_IN]"
    and c: "[GST_MFX_TASK_DECODER, GST_MFX_TASK_VPP_IN] \<noteq> []"
    by simp_all
  note t = task_role_flags_unique
             [of "[GST_MFX_TASK_DECODER, GST_MFX_TASK_VPP_IN]"
                 "[GST_MFX_TASK_VPP_IN, GST_MFX_TASK_DECODER, GST_MFX_TASK_VPP_IN]"]
  from t a b s have e: "type_flags [GST_MFX_TASK_DECODER, GST_MFX_TASK_VPP_IN] =
     type_flags [GST_MFX_TASK_VPP_IN, GST_MFX_TASK_DECODER, GST_MFX_TASK_VPP_IN]"
    by blast
  from t a c have z: "type_flags [GST_MFX_TASK_DECODER, GST_MFX_TASK_VPP_IN] \<noteq> 0"
    by blast
  have "type_flags [GST_MFX_TASK_DECODER, GST_MFX_TASK_VPP_IN] = 3"
    by simp
  with s a b c e z show ?thesis by blast
qed

end
